theory Spec2Isabelle
  imports Complex_Main
begin

text \<open>
  The ledger of keta-chain: \<^verbatim>\<open>Block\<close>, \<^verbatim>\<open>Transaction\<close> and \<^verbatim>\<open>Blockchain\<close> (core/blockchain.js),
  the address check and the hash of \<^verbatim>\<open>CryptoUtils\<close> (core/crypto.js), and the handlers of
  \<^verbatim>\<open>KeetaNode\<close> (network/node.js) that change the chain. Every function is a function of its
  arguments and of the state it reads; what it takes from the clock or from the random source is
  an argument; an exception is an \<open>error\<close> value.
\<close>

section \<open>SHA-256 on byte strings\<close>

text \<open>
  \<^verbatim>\<open>crypto.createHash('sha256').update(s).digest('hex')\<close> is the one primitive every hash of the
  ledger goes through. It is written out here (FIPS 180-4) so that the ledger can be evaluated on
  concrete inputs. A 32-bit word is a list of 32 booleans, least significant bit first; a string is
  a list of bytes (the source only hashes ASCII text: JSON of numbers, hex digests, addresses).
\<close>

type_synonym bits = "bool list"

fun xor_bits :: "bits \<Rightarrow> bits \<Rightarrow> bits" where
  "xor_bits (x # xs) (y # ys) = (x \<noteq> y) # xor_bits xs ys"
| "xor_bits _ _ = []"

fun and_bits :: "bits \<Rightarrow> bits \<Rightarrow> bits" where
  "and_bits (x # xs) (y # ys) = (x \<and> y) # and_bits xs ys"
| "and_bits _ _ = []"

fun add_carry :: "bool \<Rightarrow> bits \<Rightarrow> bits \<Rightarrow> bits" where
  "add_carry c (x # xs) (y # ys) =
     ((x \<noteq> y) \<noteq> c) # add_carry ((x \<and> y) \<or> (c \<and> (x \<noteq> y))) xs ys"
| "add_carry c _ _ = []"

definition add_bits :: "bits \<Rightarrow> bits \<Rightarrow> bits" where
  "add_bits = add_carry False"

definition rotr :: "nat \<Rightarrow> bits \<Rightarrow> bits" where
  "rotr n w = drop n w @ take n w"

definition shr :: "nat \<Rightarrow> bits \<Rightarrow> bits" where
  "shr n w = drop n w @ replicate n False"

fun nibble :: "char \<Rightarrow> bits" where
  "nibble c =
    (if c = CHR ''0'' then [False, False, False, False] else if c = CHR ''1'' then [True, False, False, False]
     else if c = CHR ''2'' then [False, True, False, False] else if c = CHR ''3'' then [True, True, False, False]
     else if c = CHR ''4'' then [False, False, True, False] else if c = CHR ''5'' then [True, False, True, False]
     else if c = CHR ''6'' then [False, True, True, False] else if c = CHR ''7'' then [True, True, True, False]
     else if c = CHR ''8'' then [False, False, False, True] else if c = CHR ''9'' then [True, False, False, True]
     else if c = CHR ''a'' then [False, True, False, True] else if c = CHR ''b'' then [True, True, False, True]
     else if c = CHR ''c'' then [False, False, True, True] else if c = CHR ''d'' then [True, False, True, True]
     else if c = CHR ''e'' then [False, True, True, True] else [True, True, True, True])"

definition word_of_hex :: "string \<Rightarrow> bits" where
  "word_of_hex s = concat (map nibble (rev s))"

definition sha_K :: "bits list" where
  "sha_K = map word_of_hex [
   ''428a2f98'', ''71374491'', ''b5c0fbcf'', ''e9b5dba5'', ''3956c25b'', ''59f111f1'', ''923f82a4'', ''ab1c5ed5'',
   ''d807aa98'', ''12835b01'', ''243185be'', ''550c7dc3'', ''72be5d74'', ''80deb1fe'', ''9bdc06a7'', ''c19bf174'',
   ''e49b69c1'', ''efbe4786'', ''0fc19dc6'', ''240ca1cc'', ''2de92c6f'', ''4a7484aa'', ''5cb0a9dc'', ''76f988da'',
   ''983e5152'', ''a831c66d'', ''b00327c8'', ''bf597fc7'', ''c6e00bf3'', ''d5a79147'', ''06ca6351'', ''14292967'',
   ''27b70a85'', ''2e1b2138'', ''4d2c6dfc'', ''53380d13'', ''650a7354'', ''766a0abb'', ''81c2c92e'', ''92722c85'',
   ''a2bfe8a1'', ''a81a664b'', ''c24b8b70'', ''c76c51a3'', ''d192e819'', ''d6990624'', ''f40e3585'', ''106aa070'',
   ''19a4c116'', ''1e376c08'', ''2748774c'', ''34b0bcb5'', ''391c0cb3'', ''4ed8aa4a'', ''5b9cca4f'', ''682e6ff3'',
   ''748f82ee'', ''78a5636f'', ''84c87814'', ''8cc70208'', ''90befffa'', ''a4506ceb'', ''bef9a3f7'', ''c67178f2'']"

definition sha_H0 :: "bits list" where
  "sha_H0 = map word_of_hex [''6a09e667'', ''bb67ae85'', ''3c6ef372'', ''a54ff53a'',
     ''510e527f'', ''9b05688c'', ''1f83d9ab'', ''5be0cd19'']"

fun byte_bits :: "char \<Rightarrow> bits" where
  "byte_bits (Char b0 b1 b2 b3 b4 b5 b6 b7) = [b0, b1, b2, b3, b4, b5, b6, b7]"

text \<open>Four bytes, most significant first, make one word.\<close>

fun be_words :: "bits list \<Rightarrow> bits list" where
  "be_words (a # b # c # d # r) = (d @ c @ b @ a) # be_words r"
| "be_words _ = []"

fun inc_bits :: "bits \<Rightarrow> bits" where
  "inc_bits [] = []"
| "inc_bits (False # bs) = True # bs"
| "inc_bits (True # bs) = False # inc_bits bs"

text \<open>\<open>rep_bits z blk\<close> repeats \<open>blk\<close> as many times as the binary number \<open>z\<close> says.\<close>

fun rep_bits :: "bits \<Rightarrow> 'a list \<Rightarrow> 'a list" where
  "rep_bits [] blk = []"
| "rep_bits (b # bs) blk = (if b then blk else []) @ rep_bits bs (blk @ blk)"

text \<open>
  Padding: the byte 0x80, then \<open>(55 - l) mod 64\<close> zero bytes for a message of \<open>l\<close> bytes, then
  the length in bits as a 64-bit big-endian number. \<open>cnt\<close> counts the bytes in binary (61 bits),
  so the bit length is \<open>cnt\<close> shifted left by three, and the number of zero bytes is computed on
  the six low bits of \<open>cnt\<close> as \<open>55 + (not l) + 1\<close>.
\<close>

definition sha_pad :: "string \<Rightarrow> bits list" where
  "sha_pad m =
     (let cnt = foldl (\<lambda>c _. inc_bits c) (replicate 61 False) m;
          z = add_carry True [True, True, True, False, True, True] (map Not (take 6 cnt));
          len = [False, False, False] @ cnt
      in be_words (map byte_bits m @ [byte_bits (CHR 0x80)] @ rep_bits z [replicate 8 False])
         @ [drop 32 len, take 32 len])"

fun chunks :: "'a list \<Rightarrow> 'a list list" where
  "chunks (x0 # x1 # x2 # x3 # x4 # x5 # x6 # x7 # x8 # x9 # x10 # x11 # x12 # x13 # x14 # x15 # r) =
     [x0, x1, x2, x3, x4, x5, x6, x7, x8, x9, x10, x11, x12, x13, x14, x15] # chunks r"
| "chunks _ = []"

text \<open>The message schedule; \<open>ws\<close> holds the words computed so far, newest first.\<close>

fun schedule :: "nat \<Rightarrow> bits list \<Rightarrow> bits list" where
  "schedule 0 ws = rev ws"
| "schedule (Suc k) ws =
     (let w2 = ws ! 1; w7 = ws ! 6; w15 = ws ! 14; w16 = ws ! 15;
          s0 = xor_bits (xor_bits (rotr 7 w15) (rotr 18 w15)) (shr 3 w15);
          s1 = xor_bits (xor_bits (rotr 17 w2) (rotr 19 w2)) (shr 10 w2)
      in schedule k (add_bits (add_bits (add_bits w16 s0) w7) s1 # ws))"

type_synonym sha_state = "bits \<times> bits \<times> bits \<times> bits \<times> bits \<times> bits \<times> bits \<times> bits"

fun sha_round :: "sha_state \<Rightarrow> bits \<times> bits \<Rightarrow> sha_state" where
  "sha_round (a, b, c, d, e, f, g, h) (k, w) =
     (let S1 = xor_bits (xor_bits (rotr 6 e) (rotr 11 e)) (rotr 25 e);
          ch = xor_bits (and_bits e f) (and_bits (map Not e) g);
          t1 = add_bits (add_bits (add_bits (add_bits h S1) ch) k) w;
          S0 = xor_bits (xor_bits (rotr 2 a) (rotr 13 a)) (rotr 22 a);
          mj = xor_bits (xor_bits (and_bits a b) (and_bits a c)) (and_bits b c);
          t2 = add_bits S0 mj
      in (add_bits t1 t2, a, b, c, add_bits d t1, e, f, g))"

fun sha_compress :: "bits list \<Rightarrow> bits list \<Rightarrow> bits list" where
  "sha_compress [a, b, c, d, e, f, g, h] blk =
     (case foldl sha_round (a, b, c, d, e, f, g, h) (zip sha_K (schedule 48 (rev blk))) of
        (a', b', c', d', e', f', g', h') \<Rightarrow>
          [add_bits a a', add_bits b b', add_bits c c', add_bits d d',
           add_bits e e', add_bits f f', add_bits g g', add_bits h h'])"
| "sha_compress hs blk = hs"

definition hex_nibble :: "bool \<Rightarrow> bool \<Rightarrow> bool \<Rightarrow> bool \<Rightarrow> char" where
  "hex_nibble b3 b2 b1 b0 =
     (if b3 then (if b2 then (if b1 then (if b0 then CHR ''f'' else CHR ''e'') else (if b0 then CHR ''d'' else CHR ''c''))
                  else (if b1 then (if b0 then CHR ''b'' else CHR ''a'') else (if b0 then CHR ''9'' else CHR ''8'')))
      else (if b2 then (if b1 then (if b0 then CHR ''7'' else CHR ''6'') else (if b0 then CHR ''5'' else CHR ''4''))
            else (if b1 then (if b0 then CHR ''3'' else CHR ''2'') else (if b0 then CHR ''1'' else CHR ''0''))))"

fun hex_of_bits :: "bits \<Rightarrow> string" where
  "hex_of_bits (b0 # b1 # b2 # b3 # r) = hex_of_bits r @ [hex_nibble b3 b2 b1 b0]"
| "hex_of_bits _ = []"

definition sha256_hex :: "string \<Rightarrow> string" where
  "sha256_hex s = concat (map hex_of_bits (foldl sha_compress sha_H0 (chunks (sha_pad s))))"

section \<open>JSON.stringify, as far as the ledger uses it\<close>

text \<open>
  Numbers: block index, timestamps and nonce are integers and print in decimal. Amounts are
  JavaScript numbers; they are modelled by exact rationals, printed as a decimal fraction (exact
  for the multiples of 1/100 that the \<open>Transaction\<close> constructor produces, cut after 17 digits
  otherwise). Rounding errors of binary floating point are outside this model.
\<close>

definition digit_char :: "int \<Rightarrow> char" where
  "digit_char d = ''0123456789'' ! nat d"

function show_nonneg :: "int \<Rightarrow> string" where
  "show_nonneg n = (if n < 10 then [digit_char n] else show_nonneg (n div 10) @ [digit_char (n mod 10)])"
  by pat_completeness auto
termination
  by (relation "measure nat") auto

definition show_int :: "int \<Rightarrow> string" where
  "show_int i = (if i < 0 then CHR ''-'' # show_nonneg (- i) else show_nonneg i)"

fun frac_digits :: "nat \<Rightarrow> int \<Rightarrow> int \<Rightarrow> string" where
  "frac_digits 0 n q = []"
| "frac_digits (Suc k) n q =
     (if n = 0 then [] else digit_char (n * 10 div q) # frac_digits k (n * 10 mod q) q)"

definition json_number :: "rat \<Rightarrow> string" where
  "json_number r =
     (case quotient_of r of (p, q) \<Rightarrow>
        if q = 1 then show_int p
        else (if p < 0 then ''-'' else '''') @ show_nonneg (\<bar>p\<bar> div q) @ ''.''
             @ frac_digits 17 (\<bar>p\<bar> mod q) q)"

text \<open>
  Strings: quoted, with the escapes of \<open>QuoteJSONString\<close>: the quote, the backslash, and the
  control characters below 0x20 (short forms for backspace, tab, newline, form feed, carriage
  return, \<^verbatim>\<open>\u00XX\<close> for the rest).
\<close>

fun json_escape :: "char \<Rightarrow> string" where
  "json_escape (Char b0 b1 b2 b3 b4 b5 b6 b7) =
     (let c = Char b0 b1 b2 b3 b4 b5 b6 b7 in
      if c = CHR 0x22 then [CHR 0x5C, CHR 0x22]
      else if c = CHR 0x5C then [CHR 0x5C, CHR 0x5C]
      else if b5 \<or> b6 \<or> b7 then [c]
      else if c = CHR 0x08 then [CHR 0x5C, CHR ''b'']
      else if c = CHR 0x09 then [CHR 0x5C, CHR ''t'']
      else if c = CHR 0x0A then [CHR 0x5C, CHR ''n'']
      else if c = CHR 0x0C then [CHR 0x5C, CHR ''f'']
      else if c = CHR 0x0D then [CHR 0x5C, CHR ''r'']
      else [CHR 0x5C, CHR ''u'', CHR ''0'', CHR ''0'', if b4 then CHR ''1'' else CHR ''0'',
            hex_nibble b3 b2 b1 b0])"

definition json_string :: "string \<Rightarrow> string" where
  "json_string s = [CHR 0x22] @ concat (map json_escape s) @ [CHR 0x22]"

definition json_nullable :: "string option \<Rightarrow> string" where
  "json_nullable v = (case v of None \<Rightarrow> ''null'' | Some s \<Rightarrow> json_string s)"

fun join_commas :: "string list \<Rightarrow> string" where
  "join_commas [] = []"
| "join_commas [x] = x"
| "join_commas (x # y # r) = x @ '','' @ join_commas (y # r)"

text \<open>
  An object literal: the members in the order they were created. A member whose value is
  \<^verbatim>\<open>undefined\<close> (\<open>None\<close> here) is left out by JSON.stringify.
\<close>

fun json_member :: "string \<times> string option \<Rightarrow> string list" where
  "json_member (k, None) = []"
| "json_member (k, Some v) = [json_string k @ '':'' @ v]"

definition json_object :: "(string \<times> string option) list \<Rightarrow> string" where
  "json_object ms = ''{'' @ join_commas (concat (map json_member ms)) @ ''}''"

definition json_array :: "string list \<Rightarrow> string" where
  "json_array xs = ''['' @ join_commas xs @ '']''"

section \<open>CryptoUtils\<close>

text \<open>\<^verbatim>\<open>s.substring(i, j)\<close> for \<open>0 \<le> i \<le> j\<close>; past the end it yields what is there.\<close>

definition substring :: "nat \<Rightarrow> nat \<Rightarrow> string \<Rightarrow> string" where
  "substring i j s = take (j - i) (drop i s)"

text \<open>
  A nullable string is truthy when it is neither null nor the empty string; this is the test
  behind \<^verbatim>\<open>!address\<close>, \<^verbatim>\<open>!this.signature\<close> and \<^verbatim>\<open>fromAddress && ...\<close>.
\<close>

definition truthy :: "string option \<Rightarrow> bool" where
  "truthy v = (case v of None \<Rightarrow> False | Some s \<Rightarrow> s \<noteq> [])"

text \<open>\<^verbatim>\<open>CryptoUtils.validateAddress\<close>: 'K', two version characters, 40 hash characters, and a
  checksum of 8 characters that must be the start of the SHA-256 of version and hash.\<close>

definition validateAddress :: "string option \<Rightarrow> bool" where
  "validateAddress address =
     (case address of
        None \<Rightarrow> False
      | Some a \<Rightarrow>
          if a = [] \<or> take 1 a \<noteq> ''K'' then False
          else if length a \<noteq> 51 then False
          else (let version = substring 1 3 a;
                    hash = substring 3 43 a;
                    checksum = substring 43 51 a;
                    expectedChecksum = substring 0 8 (sha256_hex (version @ hash))
                in checksum = expectedChecksum))"

section \<open>Transaction\<close>

datatype error =
    InvalidRecipientAddress    \<comment> \<open>'Invalid recipient address'\<close>
  | InvalidSenderAddress       \<comment> \<open>'Invalid sender address'\<close>
  | InvalidTransactionAmount   \<comment> \<open>'Invalid transaction amount'\<close>
  | NotSigned                  \<comment> \<open>'Transaction is not signed'\<close>
  | MissingAddress             \<comment> \<open>'Transaction must include from and to address'\<close>
  | InvalidTransaction         \<comment> \<open>'Cannot add invalid transaction to chain'\<close>
  | NonPositiveAmount          \<comment> \<open>'Transaction amount should be higher than 0'\<close>
  | NotEnoughBalance           \<comment> \<open>'Not enough balance'\<close>
  | MiningTimeout              \<comment> \<open>'Mining timeout - nonce exceeded maximum value'\<close>
  | TypeError                  \<comment> \<open>reading a property of \<^verbatim>\<open>undefined\<close>\<close>

text \<open>
  The fields of a transaction object in the order the constructor creates them. \<open>None\<close> is
  \<^verbatim>\<open>null\<close>. \<open>tx_data\<close> is the JSON text of the frozen data object (\<^verbatim>\<open>{}\<close> by default).
\<close>

record transaction =
  tx_id :: string
  fromAddress :: "string option"
  toAddress :: "string option"
  amount :: rat
  tx_timestamp :: int
  tx_data :: string
  signature :: "string option"

text \<open>\<^verbatim>\<open>Math.round(amount * 100) / 100\<close>; Math.round rounds a half upwards.\<close>

definition round2 :: "rat \<Rightarrow> rat" where
  "round2 a = of_int \<lfloor>a * 100 + 1 / 2\<rfloor> / 100"

text \<open>
  The constructor. What it reads from its environment is passed in: \<open>uuid\<close> is the result of
  \<^verbatim>\<open>uuidv4()\<close> and \<open>now\<close> that of \<^verbatim>\<open>Date.now()\<close>.
\<close>

definition Transaction_new ::
  "string \<Rightarrow> int \<Rightarrow> string option \<Rightarrow> string option \<Rightarrow> rat \<Rightarrow> string \<Rightarrow> error + transaction" where
  "Transaction_new uuid now from to amt dat =
     (if \<not> validateAddress to then Inl InvalidRecipientAddress
      else if truthy from \<and> \<not> validateAddress from then Inl InvalidSenderAddress
      else if amt \<le> 0 then Inl InvalidTransactionAmount
      else Inr \<lparr>tx_id = uuid, fromAddress = from, toAddress = to, amount = round2 amt,
                tx_timestamp = now, tx_data = dat, signature = None\<rparr>)"

text \<open>
  \<^verbatim>\<open>isValid\<close>: a mint (sender null) is valid; without a signature it throws, before the
  \<^verbatim>\<open>try\<close> block is entered; otherwise it returns \<^verbatim>\<open>this.signature && this.signature.length > 0\<close>,
  which is true at that point. Nothing inside the \<^verbatim>\<open>try\<close> block can throw here.
\<close>

definition isValid :: "transaction \<Rightarrow> error + bool" where
  "isValid tx =
     (if fromAddress tx = None then Inr True
      else if \<not> truthy (signature tx) then Inl NotSigned
      else Inr (truthy (signature tx)))"

definition json_transaction :: "transaction \<Rightarrow> string" where
  "json_transaction tx = json_object
     [(''id'', Some (json_string (tx_id tx))),
      (''fromAddress'', Some (json_nullable (fromAddress tx))),
      (''toAddress'', Some (json_nullable (toAddress tx))),
      (''amount'', Some (json_number (amount tx))),
      (''timestamp'', Some (show_int (tx_timestamp tx))),
      (''data'', Some (tx_data tx)),
      (''signature'', Some (json_nullable (signature tx)))]"

section \<open>Block\<close>

text \<open>The members of a block object in the order the constructor creates them.\<close>

record block =
  index :: int
  timestamp :: int
  transactions :: "transaction list"
  previousHash :: string
  hash :: string
  nonce :: int

text \<open>
  \<^verbatim>\<open>CryptoUtils.createHash\<close> of the object \<^verbatim>\<open>{index, timestamp, transactions, previousHash, nonce}\<close>.
  The nonce is optional because the constructor calls \<^verbatim>\<open>calculateHash\<close> before it has assigned
  \<^verbatim>\<open>this.nonce\<close>: the property is then \<^verbatim>\<open>undefined\<close> and JSON.stringify leaves it out.
\<close>

definition createHash_block :: "int \<Rightarrow> int \<Rightarrow> transaction list \<Rightarrow> string \<Rightarrow> int option \<Rightarrow> string" where
  "createHash_block i ts txs prev n = sha256_hex (json_object
     [(''index'', Some (show_int i)),
      (''timestamp'', Some (show_int ts)),
      (''transactions'', Some (json_array (map json_transaction txs))),
      (''previousHash'', Some (json_string prev)),
      (''nonce'', map_option show_int n)])"

definition calculateHash :: "block \<Rightarrow> string" where
  "calculateHash b =
     createHash_block (index b) (timestamp b) (transactions b) (previousHash b) (Some (nonce b))"

text \<open>
  The constructor assigns index, timestamp, transactions, previousHash, then
  \<^verbatim>\<open>this.hash = this.calculateHash()\<close>, and only then \<^verbatim>\<open>this.nonce = 0\<close>. \<open>ts\<close> is the timestamp
  argument, \<^verbatim>\<open>Date.now()\<close> when the caller gives none.
\<close>

definition Block_new :: "int \<Rightarrow> transaction list \<Rightarrow> string \<Rightarrow> int \<Rightarrow> block" where
  "Block_new i txs prev ts =
     \<lparr>index = i, timestamp = ts, transactions = txs, previousHash = prev,
      hash = createHash_block i ts txs prev None, nonce = 0\<rparr>"

text \<open>\<^verbatim>\<open>Number.MAX_SAFE_INTEGER\<close>, that is \<^verbatim>\<open>2 ** 53 - 1\<close>; up to it every integer is a number.\<close>

definition MAX_SAFE_INTEGER :: int where
  "MAX_SAFE_INTEGER = 9007199254740991"

text \<open>
  \<^verbatim>\<open>mineBlock\<close>: while the first \<open>difficulty\<close> characters of the hash are not all '0', add one
  to the nonce, recompute the hash, and throw when the nonce has passed
  \<^verbatim>\<open>Number.MAX_SAFE_INTEGER\<close>. The loop ends for every block, because the nonce grows.
\<close>

function mineBlock :: "nat \<Rightarrow> block \<Rightarrow> error + block" where
  "mineBlock difficulty b =
     (if substring 0 difficulty (hash b) = replicate difficulty CHR ''0'' then Inr b
      else (let b1 = b\<lparr>nonce := nonce b + 1\<rparr>;
                b2 = b1\<lparr>hash := calculateHash b1\<rparr>
            in if nonce b2 > MAX_SAFE_INTEGER then Inl MiningTimeout
               else mineBlock difficulty b2))"
  by pat_completeness auto
termination
  by (relation "measure (\<lambda>(d, b). nat (MAX_SAFE_INTEGER + 1 - nonce b))") auto

fun all_valid :: "transaction list \<Rightarrow> error + bool" where
  "all_valid [] = Inr True"
| "all_valid (tx # txs) =
     (case isValid tx of
        Inl e \<Rightarrow> Inl e
      | Inr v \<Rightarrow> if \<not> v then Inr False else all_valid txs)"

definition hasValidTransactions :: "block \<Rightarrow> error + bool" where
  "hasValidTransactions b = all_valid (transactions b)"

text \<open>\<^verbatim>\<open>JSON.stringify\<close> of a whole block object, members in the order of the constructor.\<close>

definition json_block :: "block \<Rightarrow> string" where
  "json_block b = json_object
     [(''index'', Some (show_int (index b))),
      (''timestamp'', Some (show_int (timestamp b))),
      (''transactions'', Some (json_array (map json_transaction (transactions b)))),
      (''previousHash'', Some (json_string (previousHash b))),
      (''hash'', Some (json_string (hash b))),
      (''nonce'', Some (show_int (nonce b)))]"

section \<open>Blockchain\<close>

record blockchain =
  chain :: "block list"
  difficulty :: nat
  pendingTransactions :: "transaction list"
  miningReward :: rat
  maxTransactionsPerBlock :: nat
  isInitialized :: bool

text \<open>The constructor leaves the chain empty; \<^verbatim>\<open>initialize\<close> fills it.\<close>

definition Blockchain_new :: blockchain where
  "Blockchain_new =
     \<lparr>chain = [], difficulty = 4, pendingTransactions = [], miningReward = 10,
      maxTransactionsPerBlock = 10000, isInitialized = False\<rparr>"

definition createGenesisBlock :: "int \<Rightarrow> block" where
  "createGenesisBlock now = Block_new 0 [] ''0'' now"

text \<open>
  \<^verbatim>\<open>initialize\<close>. The persistence store is outside the ledger; its answer is the argument
  \<open>db\<close>: \<open>None\<close> when the store throws (the \<^verbatim>\<open>catch\<close> branch), otherwise the saved chain and the
  saved pending transactions. \<open>now\<close> is the clock when the genesis block is made.
\<close>

definition initialize :: "int \<Rightarrow> (block list \<times> transaction list) option \<Rightarrow> blockchain \<Rightarrow> blockchain" where
  "initialize now db l =
     (if isInitialized l then l
      else (case db of
              None \<Rightarrow> l\<lparr>chain := [createGenesisBlock now], isInitialized := True\<rparr>
            | Some (savedChain, savedPending) \<Rightarrow>
                (if length savedChain > 0
                 then l\<lparr>chain := savedChain, pendingTransactions := savedPending, isInitialized := True\<rparr>
                 else l\<lparr>chain := [createGenesisBlock now], pendingTransactions := savedPending,
                        isInitialized := True\<rparr>)))"

text \<open>\<^verbatim>\<open>this.chain[this.chain.length - 1]\<close> is \<^verbatim>\<open>undefined\<close> on an empty chain.\<close>

definition getLatestBlock :: "blockchain \<Rightarrow> block option" where
  "getLatestBlock l = (if chain l = [] then None else Some (last (chain l)))"

definition balance_step :: "string option \<Rightarrow> rat \<Rightarrow> transaction \<Rightarrow> rat" where
  "balance_step address balance tx =
     (let b1 = (if fromAddress tx = address then balance - amount tx else balance)
      in if toAddress tx = address then b1 + amount tx else b1)"

definition getBalance :: "string option \<Rightarrow> blockchain \<Rightarrow> rat" where
  "getBalance address l =
     foldl (\<lambda>balance blk. foldl (balance_step address) balance (transactions blk)) 0 (chain l)"

text \<open>
  The operations that can throw return the error (\<open>None\<close> when they return normally) together
  with the ledger as it is afterwards. Saving to the store is not part of the model: both save
  methods catch their own failures.
\<close>

definition addTransaction :: "transaction \<Rightarrow> blockchain \<Rightarrow> error option \<times> blockchain" where
  "addTransaction tx l =
     (if \<not> truthy (fromAddress tx) \<or> \<not> truthy (toAddress tx) then (Some MissingAddress, l)
      else (case isValid tx of
              Inl e \<Rightarrow> (Some e, l)
            | Inr v \<Rightarrow>
                if \<not> v then (Some InvalidTransaction, l)
                else if amount tx \<le> 0 then (Some NonPositiveAmount, l)
                else (let walletBalance = getBalance (fromAddress tx) l
                      in if walletBalance < amount tx then (Some NotEnoughBalance, l)
                         else (None, l\<lparr>pendingTransactions := pendingTransactions l @ [tx]\<rparr>))))"

text \<open>
  \<^verbatim>\<open>minePendingTransactions\<close>. \<open>uuid\<close> and \<open>now_tx\<close> are what the reward transaction's constructor
  gets from \<^verbatim>\<open>uuidv4()\<close> and \<^verbatim>\<open>Date.now()\<close>, \<open>now_block\<close> is \<^verbatim>\<open>Date.now()\<close> in the block's
  constructor.
\<close>

definition minePendingTransactions ::
  "string \<Rightarrow> int \<Rightarrow> int \<Rightarrow> string option \<Rightarrow> blockchain \<Rightarrow> error option \<times> blockchain" where
  "minePendingTransactions uuid now_tx now_block miningRewardAddress l =
     (case Transaction_new uuid now_tx None miningRewardAddress (miningReward l) ''{}'' of
        Inl e \<Rightarrow> (Some e, l)
      | Inr rewardTx \<Rightarrow>
          (let transactionsToMine =
                 take (maxTransactionsPerBlock l) (pendingTransactions l) @ [rewardTx]
           in case getLatestBlock l of
                None \<Rightarrow> (Some TypeError, l)
              | Some latest \<Rightarrow>
                  (case mineBlock (difficulty l)
                          (Block_new (int (length (chain l))) transactionsToMine (hash latest) now_block) of
                     Inl e \<Rightarrow> (Some e, l)
                   | Inr blk \<Rightarrow>
                       (None, l\<lparr>chain := chain l @ [blk],
                                 pendingTransactions :=
                                   drop (maxTransactionsPerBlock l) (pendingTransactions l)\<rparr>))))"

text \<open>The loop of \<^verbatim>\<open>isChainValid\<close> from \<open>i = 1\<close>: \<open>prev\<close> is \<open>chain[i - 1]\<close>.\<close>

fun links_valid :: "block \<Rightarrow> block list \<Rightarrow> error + bool" where
  "links_valid previousBlock [] = Inr True"
| "links_valid previousBlock (currentBlock # rest) =
     (if hash previousBlock \<noteq> previousHash currentBlock then Inr False
      else (case hasValidTransactions currentBlock of
              Inl e \<Rightarrow> Inl e
            | Inr v \<Rightarrow>
                if \<not> v then Inr False
                else if hash currentBlock \<noteq> calculateHash currentBlock then Inr False
                else links_valid currentBlock rest))"

text \<open>
  \<^verbatim>\<open>isChainValid\<close>; \<open>now\<close> is \<^verbatim>\<open>Date.now()\<close> at the call, which the genesis block made for the
  comparison gets as its timestamp. On an empty chain \<^verbatim>\<open>JSON.stringify(this.chain[0])\<close> is
  \<^verbatim>\<open>undefined\<close>, which differs from every string.
\<close>

definition isChainValid :: "int \<Rightarrow> blockchain \<Rightarrow> error + bool" where
  "isChainValid now l =
     (let realGenesis = json_block (createGenesisBlock now)
      in case chain l of
           [] \<Rightarrow> Inr False
         | first # rest \<Rightarrow>
             if realGenesis \<noteq> json_block first then Inr False
             else links_valid first rest)"

section \<open>KeetaNode\<close>

text \<open>
  A block as it arrives in a \<^verbatim>\<open>BLOCK\<close> message: parsed JSON, in which every member that
  \<^verbatim>\<open>isValidBlock\<close> looks at may be missing or null (\<open>None\<close>). A member that is there has
  the type it has in a \<^verbatim>\<open>Block\<close>; JSON values of other types are not modelled.
\<close>

record block_data =
  bd_index :: "int option"
  bd_timestamp :: "int option"
  bd_transactions :: "transaction list option"
  bd_previousHash :: "string option"
  bd_hash :: "string option"
  bd_nonce :: int

datatype message = BLOCK block_data

record peer =
  ws_open :: bool    \<comment> \<open>\<^verbatim>\<open>ws.readyState === WebSocket.OPEN\<close>\<close>
  peer_address :: string
  peer_port :: int

text \<open>\<open>sent\<close> records every \<^verbatim>\<open>ws.send\<close>: the peer and the message.\<close>

record node =
  blockchain_of :: blockchain
  peers :: "string \<rightharpoonup> peer"
  connectedPeers :: "string list"
  sent :: "(string \<times> message) list"

definition sendToPeer :: "string \<Rightarrow> message \<Rightarrow> node \<Rightarrow> node" where
  "sendToPeer peerId msg n =
     (case peers n peerId of
        Some p \<Rightarrow> if ws_open p then n\<lparr>sent := sent n @ [(peerId, msg)]\<rparr> else n
      | None \<Rightarrow> n)"

definition broadcastToPeers :: "message \<Rightarrow> string option \<Rightarrow> node \<Rightarrow> node" where
  "broadcastToPeers msg excludePeerId n =
     foldl (\<lambda>n' peerId. if Some peerId \<noteq> excludePeerId then sendToPeer peerId msg n' else n')
       n (connectedPeers n)"

text \<open>
  \<^verbatim>\<open>isValidBlock\<close> is a chain of \<^verbatim>\<open>&&\<close>: each member must be truthy, so a number must not be 0
  and a string must not be empty; an array is always truthy.
\<close>

definition isValidBlock :: "block_data \<Rightarrow> bool" where
  "isValidBlock bd =
     ((case bd_index bd of None \<Rightarrow> False | Some i \<Rightarrow> i \<noteq> 0) \<and>
      truthy (bd_hash bd) \<and>
      truthy (bd_previousHash bd) \<and>
      bd_transactions bd \<noteq> None \<and>
      (case bd_timestamp bd of None \<Rightarrow> False | Some t \<Rightarrow> t \<noteq> 0))"

text \<open>
  The received object as an element of the chain; defined when no member is missing. (In the
  source the element is the parsed object itself, with the members but without the methods of
  \<^verbatim>\<open>Block\<close>. The handlers modelled here read members only.)
\<close>

definition as_block :: "block_data \<Rightarrow> block option" where
  "as_block bd =
     (case (bd_index bd, bd_timestamp bd, bd_transactions bd, bd_previousHash bd, bd_hash bd) of
        (Some i, Some t, Some txs, Some p, Some h) \<Rightarrow>
          Some \<lparr>index = i, timestamp = t, transactions = txs, previousHash = p, hash = h,
                nonce = bd_nonce bd\<rparr>
      | _ \<Rightarrow> None)"

text \<open>
  \<^verbatim>\<open>handleBlock\<close>. The message data may be null, and then the first statement (it logs
  \<^verbatim>\<open>blockData.index\<close>) throws; \<^verbatim>\<open>handleMessage\<close> catches that.
\<close>

definition handleBlock :: "string \<Rightarrow> block_data option \<Rightarrow> node \<Rightarrow> error option \<times> node" where
  "handleBlock peerId blockData n =
     (case blockData of
        None \<Rightarrow> (Some TypeError, n)
      | Some bd \<Rightarrow>
          if isValidBlock bd then
            (if bd_index bd = Some (int (length (chain (blockchain_of n)))) then
               (case as_block bd of
                  None \<Rightarrow> (None, n)
                | Some b \<Rightarrow>
                    (None, broadcastToPeers (BLOCK bd) (Some peerId)
                       (n\<lparr>blockchain_of := (blockchain_of n)\<lparr>chain := chain (blockchain_of n) @ [b]\<rparr>\<rparr>)))
             else (None, n))
          else (None, n))"

definition replaceChain :: "block list \<Rightarrow> node \<Rightarrow> node" where
  "replaceChain newChain n =
     (if length newChain > length (chain (blockchain_of n))
      then n\<lparr>blockchain_of := (blockchain_of n)\<lparr>chain := newChain\<rparr>\<rparr>
      else n)"

text \<open>\<^verbatim>\<open>handleChainResponse\<close>; the data of the message are its chain and its height.\<close>

definition handleChainResponse :: "string \<Rightarrow> block list \<times> int \<Rightarrow> node \<Rightarrow> node" where
  "handleChainResponse peerId data n =
     (case data of (data_chain, data_height) \<Rightarrow>
        if data_height > int (length (chain (blockchain_of n))) then replaceChain data_chain n else n)"

section \<open>Notions used to state the claims\<close>

text \<open>A peer to which \<^verbatim>\<open>sendToPeer\<close> really sends: it is in the peer map and its socket is open.\<close>

definition peer_is_open :: "node \<Rightarrow> string \<Rightarrow> bool" where
  "peer_is_open n peerId = (case peers n peerId of None \<Rightarrow> False | Some p \<Rightarrow> ws_open p)"

text \<open>
  The invariant of the ledger in the words of the specification: the chain is not empty and
  its first block is a genesis block, that is, the block \<^verbatim>\<open>createGenesisBlock\<close> makes at some
  time (index 0, no transactions, previous hash "0", nonce 0).
\<close>

definition is_genesis :: "block \<Rightarrow> bool" where
  "is_genesis b = (b = createGenesisBlock (timestamp b))"

definition genesis_first :: "blockchain \<Rightarrow> bool" where
  "genesis_first l = (case chain l of [] \<Rightarrow> False | b # _ \<Rightarrow> is_genesis b)"

section \<open>Example objects\<close>

text \<open>
  Two well-formed addresses (their checksums are the first eight digits of the SHA-256 of
  version and hash), the reward transaction of a first mined block, and a payment from the
  miner, unsigned as the constructor leaves it.
\<close>

definition example_miner :: string where
  "example_miner = ''K00aaaaaaaaaaaaaaaaaaaaaaaaaaaaaaaaaaaaaaaab946740c''"

definition example_payee :: string where
  "example_payee = ''K00bbbbbbbbbbbbbbbbbbbbbbbbbbbbbbbbbbbbbbbb2e69f917''"

definition example_reward :: transaction where
  "example_reward =
     \<lparr>tx_id = ''123e4567-e89b-42d3-a456-426614174000'', fromAddress = None,
      toAddress = Some example_miner, amount = 10, tx_timestamp = 2000, tx_data = ''{}'',
      signature = None\<rparr>"

definition example_payment :: transaction where
  "example_payment =
     \<lparr>tx_id = ''9f1c2d3e-0000-4000-8000-000000000001'', fromAddress = Some example_miner,
      toAddress = Some example_payee, amount = 5 / 2, tx_timestamp = 3000, tx_data = ''{}'',
      signature = None\<rparr>"

definition example_payment2 :: transaction where
  "example_payment2 =
     \<lparr>tx_id = ''9f1c2d3e-0000-4000-8000-000000000002'', fromAddress = Some example_miner,
      toAddress = Some example_payee, amount = 1, tx_timestamp = 3001, tx_data = ''{}'',
      signature = Some ''3046''\<rparr>"

text \<open>
  The ledger after one block was mined on a genesis block of time 1000, with difficulty 1: the
  constructor of the second block ran at time 2078 and the search ended at nonce 1.
\<close>

definition example_mined :: block where
  "example_mined =
     \<lparr>index = 1, timestamp = 2078, transactions = [example_reward],
      previousHash = ''88bf30ffb13c30d9ef20727297b0706d84ef372f495cc8a30076d18fcf67f08a'',
      hash = ''0ea41b46ea6d521075b80f5db8ce6fc3b374a171ceb55486ebf8178b3b028fc5'',
      nonce = 1\<rparr>"

definition example_ledger :: blockchain where
  "example_ledger =
     (initialize 1000 None Blockchain_new)
       \<lparr>chain := [createGenesisBlock 1000, example_mined], difficulty := 1\<rparr>"

text \<open>The same ledger with two signed payments waiting and room for one of them in a block.\<close>

definition example_pool_ledger :: blockchain where
  "example_pool_ledger =
     example_ledger
       \<lparr>pendingTransactions := [example_payment\<lparr>signature := Some ''3045''\<rparr>, example_payment2],
        maxTransactionsPerBlock := 1\<rparr>"

text \<open>A node with the example ledger and three known peers, of which the second has a closed socket.\<close>

definition example_node :: node where
  "example_node =
     \<lparr>blockchain_of = example_ledger,
      peers = [''peer-a'' \<mapsto> \<lparr>ws_open = True, peer_address = ''10.0.0.1'', peer_port = 6001\<rparr>,
               ''peer-b'' \<mapsto> \<lparr>ws_open = False, peer_address = ''10.0.0.2'', peer_port = 6001\<rparr>,
               ''peer-c'' \<mapsto> \<lparr>ws_open = True, peer_address = ''10.0.0.3'', peer_port = 6001\<rparr>],
      connectedPeers = [''peer-a'', ''peer-b'', ''peer-c''],
      sent = []\<rparr>"

text \<open>A block that continues nothing: wrong index, no link to a predecessor.\<close>

definition example_stray :: block where
  "example_stray =
     \<lparr>index = 5, timestamp = 7000, transactions = [], previousHash = ''ff'', hash = ''ee'', nonce = 3\<rparr>"

text \<open>The data of a \<^verbatim>\<open>BLOCK\<close> message for the height after the example ledger.\<close>

definition example_block_data :: block_data where
  "example_block_data =
     \<lparr>bd_index = Some 2, bd_timestamp = Some 4000, bd_transactions = Some [],
      bd_previousHash = Some ''0ea4'', bd_hash = Some ''0b17'', bd_nonce = 9\<rparr>"

section \<open>Basic facts\<close>

declare mineBlock.simps [simp del]
declare show_nonneg.simps [simp del]

lemma isValid_cases:
  "isValid tx = (if fromAddress tx \<noteq> None \<and> \<not> truthy (signature tx) then Inl NotSigned else Inr True)"
  by (simp add: isValid_def)

lemma all_valid_cases:
  "all_valid txs =
     (if \<exists>tx \<in> set txs. fromAddress tx \<noteq> None \<and> \<not> truthy (signature tx)
      then Inl NotSigned else Inr True)"
  by (induction txs) (auto simp: isValid_cases)

lemma example_balance: "getBalance (Some example_miner) example_ledger = 10"
  by (simp add: getBalance_def example_ledger_def initialize_def Blockchain_new_def
      createGenesisBlock_def Block_new_def balance_step_def example_reward_def example_mined_def)

lemma mineBlock_result:
  "mineBlock d b = Inr b' \<Longrightarrow>
     index b' = index b \<and> timestamp b' = timestamp b \<and> transactions b' = transactions b \<and>
     previousHash b' = previousHash b \<and> nonce b \<le> nonce b' \<and>
     substring 0 d (hash b') = replicate d CHR ''0'' \<and>
     (b' = b \<or> hash b' = calculateHash b')"
proof (induction d b rule: mineBlock.induct)
  case (1 d b)
  show ?case
  proof (cases "substring 0 d (hash b) = replicate d CHR ''0''")
    case True
    with "1.prems" show ?thesis by (simp add: mineBlock.simps [of d b])
  next
    case False
    define b1 where "b1 = b\<lparr>nonce := nonce b + 1\<rparr>"
    define b2 where "b2 = b1\<lparr>hash := calculateHash b1\<rparr>"
    have small: "\<not> nonce b2 > MAX_SAFE_INTEGER" and rec: "mineBlock d b2 = Inr b'"
      using "1.prems" False
      by (auto simp: mineBlock.simps [of d b] Let_def b1_def b2_def split: if_splits)
    have fresh: "hash b2 = calculateHash b2"
      by (simp add: b2_def calculateHash_def)
    from "1.IH" [OF False b1_def b2_def small rec]
    show ?thesis using fresh by (auto simp: b1_def b2_def)
  qed
qed

lemma mineBlock_error: "mineBlock d b = Inl e \<Longrightarrow> e = MiningTimeout"
proof (induction d b rule: mineBlock.induct)
  case (1 d b)
  then show ?case
    by (auto simp: mineBlock.simps [of d b] Let_def split: if_splits)
qed

lemma Transaction_new_mint:
  "Transaction_new uuid now None addr amt dat =
     (if \<not> validateAddress addr then Inl InvalidRecipientAddress
      else if amt \<le> 0 then Inl InvalidTransactionAmount
      else Inr \<lparr>tx_id = uuid, fromAddress = None, toAddress = addr, amount = round2 amt,
                tx_timestamp = now, tx_data = dat, signature = None\<rparr>)"
  by (simp add: Transaction_new_def truthy_def)

lemma minePendingTransactions_cases:
  "minePendingTransactions uuid now_tx now_block addr l =
     (if \<not> validateAddress addr then (Some InvalidRecipientAddress, l)
      else if miningReward l \<le> 0 then (Some InvalidTransactionAmount, l)
      else if chain l = [] then (Some TypeError, l)
      else (case mineBlock (difficulty l)
                   (Block_new (int (length (chain l)))
                      (take (maxTransactionsPerBlock l) (pendingTransactions l) @
                       [\<lparr>tx_id = uuid, fromAddress = None, toAddress = addr,
                         amount = round2 (miningReward l), tx_timestamp = now_tx, tx_data = ''{}'',
                         signature = None\<rparr>])
                      (hash (last (chain l))) now_block) of
              Inl e \<Rightarrow> (Some MiningTimeout, l)
            | Inr blk \<Rightarrow>
                (None, l\<lparr>chain := chain l @ [blk],
                          pendingTransactions :=
                            drop (maxTransactionsPerBlock l) (pendingTransactions l)\<rparr>)))"
  by (auto simp: minePendingTransactions_def Transaction_new_mint getLatestBlock_def Let_def
      split: sum.splits dest: mineBlock_error)

lemma round2_10: "round2 10 = 10"
  by code_simp

lemma sendToPeer_eq:
  "sendToPeer p msg n = (if peer_is_open n p then n\<lparr>sent := sent n @ [(p, msg)]\<rparr> else n)"
  by (simp add: sendToPeer_def peer_is_open_def split: option.splits)

lemma broadcast_fold:
  "foldl (\<lambda>n' p. if Some p \<noteq> ex then sendToPeer p msg n' else n') n ps =
     n\<lparr>sent := sent n @ map (\<lambda>p. (p, msg)) (filter (\<lambda>p. Some p \<noteq> ex \<and> peer_is_open n p) ps)\<rparr>"
proof (induction ps arbitrary: n)
  case Nil
  show ?case by simp
next
  case (Cons p ps)
  have keep: "peer_is_open (n\<lparr>sent := s\<rparr>) = peer_is_open n" for s
    by (rule ext) (simp add: peer_is_open_def)
  show ?case
    by (simp add: Cons.IH sendToPeer_eq keep)
qed

lemma broadcastToPeers_eq:
  "broadcastToPeers msg ex n =
     n\<lparr>sent := sent n @ map (\<lambda>p. (p, msg))
                        (filter (\<lambda>p. Some p \<noteq> ex \<and> peer_is_open n p) (connectedPeers n))\<rparr>"
  by (simp add: broadcastToPeers_def broadcast_fold)

lemma isValidBlock_as_block: "isValidBlock bd \<Longrightarrow> \<exists>b. as_block bd = Some b"
  by (auto simp: isValidBlock_def as_block_def truthy_def split: option.splits)

subsection \<open>Decimal numerals determine the number\<close>

lemma digit_char_mem: "0 \<le> d \<Longrightarrow> d < 10 \<Longrightarrow> digit_char d \<in> set ''0123456789''"
  unfolding digit_char_def by (rule nth_mem) simp

lemma digit_char_inj:
  assumes "0 \<le> a" "a < 10" "0 \<le> b" "b < 10" "digit_char a = digit_char b"
  shows "a = b"
proof -
  have d: "distinct ''0123456789''" by simp
  have "nat a < length ''0123456789''" "nat b < length ''0123456789''"
    using assms by simp_all
  with d assms(5) have "nat a = nat b"
    unfolding digit_char_def by (simp only: nth_eq_iff_index_eq)
  with assms show ?thesis by simp
qed

lemma show_nonneg_digits:
  "0 \<le> n \<Longrightarrow> set (show_nonneg n) \<subseteq> set ''0123456789'' \<and> show_nonneg n \<noteq> []"
proof (induction n rule: show_nonneg.induct)
  case (1 n)
  show ?case
  proof (cases "n < 10")
    case True
    with "1.prems" show ?thesis
      using digit_char_mem [of n] by (simp add: show_nonneg.simps [of n])
  next
    case False
    with "1.prems" have "0 \<le> n div 10" by simp
    with "1.IH" [OF False] have "set (show_nonneg (n div 10)) \<subseteq> set ''0123456789''" by simp
    moreover have "digit_char (n mod 10) \<in> set ''0123456789''"
      by (rule digit_char_mem) simp_all
    ultimately show ?thesis
      using False by (simp add: show_nonneg.simps [of n])
  qed
qed

lemma show_nonneg_inj:
  "0 \<le> m \<Longrightarrow> 0 \<le> n \<Longrightarrow> show_nonneg m = show_nonneg n \<Longrightarrow> m = n"
proof (induction m arbitrary: n rule: show_nonneg.induct)
  case (1 m)
  show ?case
  proof (cases "m < 10")
    case True
    show ?thesis
    proof (cases "n < 10")
      case n: True
      with True "1.prems" show ?thesis
        by (simp add: show_nonneg.simps [of m] show_nonneg.simps [of n] digit_char_inj)
    next
      case n: False
      then have "0 \<le> n div 10" using "1.prems" by simp
      then have "show_nonneg (n div 10) \<noteq> []" using show_nonneg_digits by blast
      with True n "1.prems" show ?thesis
        by (simp add: show_nonneg.simps [of m] show_nonneg.simps [of n])
    qed
  next
    case False
    then have m10: "0 \<le> m div 10" using "1.prems" by simp
    show ?thesis
    proof (cases "n < 10")
      case n: True
      have "show_nonneg (m div 10) \<noteq> []" using show_nonneg_digits m10 by blast
      with False n "1.prems" show ?thesis
        by (simp add: show_nonneg.simps [of m] show_nonneg.simps [of n])
    next
      case n: False
      then have n10: "0 \<le> n div 10" using "1.prems" by simp
      from False n "1.prems"(3)
      have eq: "show_nonneg (m div 10) = show_nonneg (n div 10)"
        and dg: "digit_char (m mod 10) = digit_char (n mod 10)"
        by (simp_all add: show_nonneg.simps [of m] show_nonneg.simps [of n])
      from "1.IH" [OF False m10 n10 eq] have "m div 10 = n div 10" .
      moreover from dg have "m mod 10 = n mod 10"
        by (intro digit_char_inj) simp_all
      ultimately show ?thesis
        by (metis mult_div_mod_eq)
    qed
  qed
qed

lemma set_Cons_subset: "x \<in> B \<Longrightarrow> set xs \<subseteq> B \<Longrightarrow> set (x # xs) \<subseteq> B"
  by simp

lemma show_nonneg_chars: "0 \<le> n \<Longrightarrow> set (show_nonneg n) \<subseteq> set ''-0123456789''"
proof -
  assume "0 \<le> n"
  then have "set (show_nonneg n) \<subseteq> set ''0123456789''"
    using show_nonneg_digits by blast
  also have "set ''0123456789'' \<subseteq> set ''-0123456789''"
    by (rule set_subset_Cons)
  finally show ?thesis .
qed

lemma show_int_chars: "set (show_int i) \<subseteq> set ''-0123456789''"
proof (cases "i < 0")
  case True
  have "CHR ''-'' \<in> set ''-0123456789''" by simp
  moreover have "set (show_nonneg (- i)) \<subseteq> set ''-0123456789''"
    using True by (intro show_nonneg_chars) simp
  ultimately have "set (CHR ''-'' # show_nonneg (- i)) \<subseteq> set ''-0123456789''"
    by (rule set_Cons_subset)
  with True show ?thesis by (simp only: show_int_def if_True)
next
  case False
  then have "set (show_nonneg i) \<subseteq> set ''-0123456789''"
    by (intro show_nonneg_chars) simp
  with False show ?thesis by (simp only: show_int_def if_False)
qed

lemma show_nonneg_no_minus: "0 \<le> n \<Longrightarrow> show_nonneg n \<noteq> CHR ''-'' # s"
proof
  assume n: "0 \<le> n" and "show_nonneg n = CHR ''-'' # s"
  then have "CHR ''-'' \<in> set (show_nonneg n)" by simp
  moreover have "set (show_nonneg n) \<subseteq> set ''0123456789''"
    using show_nonneg_digits n by blast
  ultimately have "CHR ''-'' \<in> set ''0123456789''" by blast
  then show False by simp
qed

lemma show_int_inj: "show_int i = show_int j \<Longrightarrow> i = j"
proof -
  assume eq: "show_int i = show_int j"
  show "i = j"
  proof (cases "i < 0")
    case i: True
    show ?thesis
    proof (cases "j < 0")
      case True
      with i eq have "show_nonneg (- i) = show_nonneg (- j)" by (simp add: show_int_def)
      with i True have "- i = - j" by (intro show_nonneg_inj) simp_all
      then show ?thesis by simp
    next
      case False
      with i eq show_nonneg_no_minus [of j "show_nonneg (- i)"] show ?thesis
        by (simp add: show_int_def)
    qed
  next
    case i: False
    show ?thesis
    proof (cases "j < 0")
      case True
      with i eq show_nonneg_no_minus [of i "show_nonneg (- j)"] show ?thesis
        by (simp add: show_int_def)
    next
      case False
      with i eq show ?thesis by (intro show_nonneg_inj) (simp_all add: show_int_def)
    qed
  qed
qed

lemma separated_eq:
  "set xs \<subseteq> D \<Longrightarrow> set ys \<subseteq> D \<Longrightarrow> c \<notin> D \<Longrightarrow> xs @ c # r1 = ys @ c # r2 \<Longrightarrow> xs = ys"
proof (induction xs arbitrary: ys)
  case Nil
  then show ?case by (cases ys) auto
next
  case (Cons x xs)
  then show ?case by (cases ys) auto
qed

lemma json_block_genesis_inj:
  assumes "json_block (createGenesisBlock t1) = json_block (createGenesisBlock t2)"
  shows "t1 = t2"
proof -
  from assms obtain r1 r2 where "show_int t1 @ CHR '','' # r1 = show_int t2 @ CHR '','' # r2"
    by (simp add: json_block_def createGenesisBlock_def Block_new_def json_object_def)
  moreover have "CHR '','' \<notin> set ''-0123456789''" by simp
  ultimately have "show_int t1 = show_int t2"
    by (intro separated_eq [OF show_int_chars show_int_chars])
  then show ?thesis by (rule show_int_inj)
qed

text \<open>
  So a ledger that \<^verbatim>\<open>initialize\<close> has just made is rejected by \<^verbatim>\<open>isChainValid\<close> at every time but
  the time of its genesis block.
\<close>

lemma isChainValid_any_later_call_false:
  assumes "now \<noteq> t0"
  shows "isChainValid now (initialize t0 None Blockchain_new) = Inr False"
    and "isChainValid now (initialize t0 (Some ([], pend)) Blockchain_new) = Inr False"
  using assms json_block_genesis_inj [of now t0]
  by (auto simp: isChainValid_def initialize_def Blockchain_new_def Let_def)

section \<open>Runs on the example objects\<close>

text \<open>
  The hash function on the message of its standard (FIPS 180-4, appendix B.1), and the code of
  the ledger on the example objects: both example addresses pass \<^verbatim>\<open>validateAddress\<close>; mining on
  the genesis-only ledger at the times of the example gives the example ledger; mining on the
  ledger with the waiting payments returns normally.
\<close>

lemma sha256_hex_abc:
  "sha256_hex ''abc'' = ''ba7816bf8f01cfea414140de5dae2223b00361a396177a9cb410ff61f20015ad''"
  by code_simp

lemma sha256_hex_two_blocks:
  "sha256_hex ''abcdbcdecdefdefgefghfghighijhijkijkljklmklmnlmnomnopnopq''
     = ''248d6a61d20638b8e5c026930c3e6039a33ce45964ff2167f6ecedd419db06c1''"
  by code_simp

lemma example_miner_valid: "validateAddress (Some example_miner)"
  by code_simp

lemma example_payee_valid: "validateAddress (Some example_payee)"
  by code_simp

lemma example_mining_run:
  "minePendingTransactions ''123e4567-e89b-42d3-a456-426614174000'' 2000 2078 (Some example_miner)
     ((initialize 1000 None Blockchain_new)\<lparr>difficulty := 1, miningReward := 10\<rparr>)
   = (None, example_ledger)"
  by code_simp

lemma example_capped_run:
  "minePendingTransactions ''123e4567-e89b-42d3-a456-426614174001'' 5000 5001
     (Some example_miner) example_pool_ledger
   = (None, example_pool_ledger
        \<lparr>chain := chain example_pool_ledger @
           [\<lparr>index = 2, timestamp = 5001,
             transactions =
               [example_payment\<lparr>signature := Some ''3045''\<rparr>,
                \<lparr>tx_id = ''123e4567-e89b-42d3-a456-426614174001'', fromAddress = None,
                  toAddress = Some example_miner, amount = 10, tx_timestamp = 5000,
                  tx_data = ''{}'', signature = None\<rparr>],
             previousHash = ''0ea41b46ea6d521075b80f5db8ce6fc3b374a171ceb55486ebf8178b3b028fc5'',
             hash = ''01f628fcb3edfa55b175cb140e943c7a6110001295dde942326dca213d51b9f7'',
             nonce = 1\<rparr>],
         pendingTransactions := [example_payment2]\<rparr>)"
  by code_simp

text \<open>
  With the clock stopped at the time of the genesis block, \<^verbatim>\<open>isChainValid\<close> accepts the example
  ledger, whose second block took one step of the nonce search.
\<close>

lemma isChainValid_frozen_clock: "isChainValid 1000 example_ledger = Inr True"
  by code_simp

text \<open>
  Mined at time 2011 instead, the second block is accepted with the hash its constructor
  stored (it starts with '0', the nonce stays 0), and \<^verbatim>\<open>isChainValid\<close> rejects the ledger even
  with the clock stopped.
\<close>

lemma isChainValid_unsearched_block_false:
  "(case minePendingTransactions ''123e4567-e89b-42d3-a456-426614174000'' 2000 2011
           (Some example_miner)
           ((initialize 1000 None Blockchain_new)\<lparr>difficulty := 1, miningReward := 10\<rparr>) of
      (None, l') \<Rightarrow> nonce (last (chain l')) = 0 \<and> isChainValid 1000 l' = Inr False
    | (Some e, l') \<Rightarrow> False)"
  by code_simp

text \<open>Three stray blocks are no valid chain.\<close>

lemma isChainValid_strays:
  "isChainValid 9000 (example_ledger\<lparr>chain := [example_stray, example_stray, example_stray]\<rparr>)
     = Inr False"
  by code_simp

section \<open>The claims\<close>

text \<open>
  C1 fails on the code. \<^verbatim>\<open>isChainValid\<close> compares the first block with a genesis block that it
  makes at the time of the call, and \<^verbatim>\<open>createGenesisBlock\<close> stamps the block with \<^verbatim>\<open>Date.now()\<close>:
  for a ledger initialized at time 1000 without saved data, \<^verbatim>\<open>isChainValid\<close> called at time 1001
  returns false. (\<open>isChainValid_any_later_call_false\<close> has the same for every pair of different
  times.)
\<close>

theorem isChainValid_later_call_false:
  "isChainValid 1001 (initialize 1000 None Blockchain_new) = Inr False"
  by code_simp

text \<open>
  C2, as the code has it. A call of \<^verbatim>\<open>minePendingTransactions\<close> that returns normally has
  appended exactly one block: its previous hash is the hash of the old tip, its index the old
  length, its transactions the first \<open>min(maxTransactionsPerBlock, pool size)\<close> pool entries in
  their order followed by the reward transaction (sender null, recipient the reward address,
  amount the mining reward rounded to two decimals); the pool keeps exactly the entries beyond
  the cap, in order. The call returns normally only for a reward address that passes
  \<^verbatim>\<open>validateAddress\<close>, a positive mining reward and a chain that is not empty; otherwise, and
  when the nonce search reaches its bound, it throws and the ledger is as before.
\<close>

theorem minePendingTransactions_appends_one_block:
  "(case minePendingTransactions uuid now_tx now_block addr l of
      (None, l') \<Rightarrow>
        validateAddress addr \<and> 0 < miningReward l \<and> chain l \<noteq> [] \<and>
        (\<exists>blk. chain l' = chain l @ [blk] \<and>
           previousHash blk = hash (last (chain l)) \<and>
           index blk = int (length (chain l)) \<and>
           timestamp blk = now_block \<and>
           transactions blk =
             take (min (maxTransactionsPerBlock l) (length (pendingTransactions l)))
               (pendingTransactions l) @
             [\<lparr>tx_id = uuid, fromAddress = None, toAddress = addr,
               amount = round2 (miningReward l), tx_timestamp = now_tx, tx_data = ''{}'',
               signature = None\<rparr>] \<and>
           substring 0 (difficulty l) (hash blk) = replicate (difficulty l) CHR ''0'') \<and>
        pendingTransactions l' = drop (maxTransactionsPerBlock l) (pendingTransactions l) \<and>
        difficulty l' = difficulty l \<and> miningReward l' = miningReward l \<and>
        maxTransactionsPerBlock l' = maxTransactionsPerBlock l
    | (Some e, l') \<Rightarrow>
        l' = l \<and>
        (e = InvalidRecipientAddress \<and> \<not> validateAddress addr \<or>
         e = InvalidTransactionAmount \<and> miningReward l \<le> 0 \<or>
         e = TypeError \<and> chain l = [] \<or>
         e = MiningTimeout))"
proof -
  have tk: "take (min m (length xs)) xs = take m xs" for m and xs :: "transaction list"
    by (simp add: min_def)
  show ?thesis
    unfolding minePendingTransactions_cases tk
    by (auto split: sum.splits dest!: mineBlock_result simp: Block_new_def)
qed

text \<open>
  On the example ledger with two waiting payments and a cap of 1: the new block holds the first
  payment and the reward, and the second payment stays in the pool.
\<close>

theorem minePendingTransactions_appends_one_block_witness:
  "fst (minePendingTransactions ''123e4567-e89b-42d3-a456-426614174001'' 5000 5001
          (Some example_miner) example_pool_ledger) = None \<and>
   length (chain (snd (minePendingTransactions ''123e4567-e89b-42d3-a456-426614174001'' 5000 5001
          (Some example_miner) example_pool_ledger))) = 3 \<and>
   previousHash (last (chain (snd (minePendingTransactions ''123e4567-e89b-42d3-a456-426614174001''
          5000 5001 (Some example_miner) example_pool_ledger)))) = hash example_mined \<and>
   transactions (last (chain (snd (minePendingTransactions ''123e4567-e89b-42d3-a456-426614174001''
          5000 5001 (Some example_miner) example_pool_ledger)))) =
     [example_payment\<lparr>signature := Some ''3045''\<rparr>,
      \<lparr>tx_id = ''123e4567-e89b-42d3-a456-426614174001'', fromAddress = None,
        toAddress = Some example_miner, amount = 10, tx_timestamp = 5000, tx_data = ''{}'',
        signature = None\<rparr>] \<and>
   pendingTransactions (snd (minePendingTransactions ''123e4567-e89b-42d3-a456-426614174001'' 5000
          5001 (Some example_miner) example_pool_ledger)) = [example_payment2]"
proof -
  obtain l' where run:
    "minePendingTransactions ''123e4567-e89b-42d3-a456-426614174001'' 5000 5001
       (Some example_miner) example_pool_ledger = (None, l')"
    using example_capped_run by blast
  have ledger: "chain example_pool_ledger = [createGenesisBlock 1000, example_mined]"
    "pendingTransactions example_pool_ledger =
       [example_payment\<lparr>signature := Some ''3045''\<rparr>, example_payment2]"
    "maxTransactionsPerBlock example_pool_ledger = 1"
    "miningReward example_pool_ledger = 10"
    by (simp_all add: example_pool_ledger_def example_ledger_def initialize_def Blockchain_new_def)
  show ?thesis
    using minePendingTransactions_appends_one_block
      [where uuid = "''123e4567-e89b-42d3-a456-426614174001''" and now_tx = 5000
         and now_block = 5001 and addr = "Some example_miner" and l = example_pool_ledger]
    by (auto simp: run ledger round2_10)
qed

text \<open>
  C2 as stated fails: with a reward address that is no address, the call throws
  'Invalid recipient address' and appends nothing.
\<close>

theorem minePendingTransactions_bad_address_counterexample:
  "minePendingTransactions ''123e4567-e89b-42d3-a456-426614174001'' 5000 5001 (Some ''miner-1'')
     example_pool_ledger = (Some InvalidRecipientAddress, example_pool_ledger)"
  by (simp add: minePendingTransactions_cases validateAddress_def)

text \<open>
  C3, as the code has it. \<^verbatim>\<open>hasValidTransactions\<close> has no \<^verbatim>\<open>try\<close>: for every block that contains
  an unsigned transaction with a sender (signature null or empty), the error
  'Transaction is not signed' thrown by \<^verbatim>\<open>isValid\<close> leaves \<^verbatim>\<open>hasValidTransactions\<close> as an
  exception; the method does not return false.
\<close>

theorem hasValidTransactions_unsigned_throws:
  assumes "tx \<in> set (transactions b)" and "fromAddress tx \<noteq> None" and "\<not> truthy (signature tx)"
  shows "hasValidTransactions b = Inl NotSigned"
  using assms by (auto simp: hasValidTransactions_def all_valid_cases)

theorem hasValidTransactions_unsigned_throws_witness:
  "hasValidTransactions (Block_new 2 [example_reward, example_payment] ''00'' 4000) = Inl NotSigned"
  by (rule hasValidTransactions_unsigned_throws [where tx = example_payment])
     (simp_all add: Block_new_def example_payment_def truthy_def)

text \<open>
  C3 as stated fails: a block whose only transaction is the unsigned payment does not make
  \<^verbatim>\<open>hasValidTransactions\<close> return false; the call ends with the exception.
\<close>

theorem hasValidTransactions_unsigned_counterexample:
  "fromAddress example_payment \<noteq> None \<and> signature example_payment = None \<and>
   hasValidTransactions (Block_new 2 [example_payment] ''00'' 4000) \<noteq> Inr False \<and>
   hasValidTransactions (Block_new 2 [example_payment] ''00'' 4000) = Inl NotSigned"
  by (simp add: hasValidTransactions_def Block_new_def isValid_def example_payment_def truthy_def)

text \<open>
  C4 fails on the code. Right after construction the stored hash of a block is the hash of the
  four members index, timestamp, transactions and previousHash, computed while \<^verbatim>\<open>this.nonce\<close>
  was still undefined; \<^verbatim>\<open>calculateHash\<close> on the constructed block, whose nonce is 0, gives
  another digest. Shown for the block \<^verbatim>\<open>new Block(0, [], '0', 1000)\<close>.
\<close>

theorem Block_new_hash_without_nonce:
  "nonce (Block_new 0 [] ''0'' 1000) = 0 \<and>
   hash (Block_new 0 [] ''0'' 1000)
     = ''88bf30ffb13c30d9ef20727297b0706d84ef372f495cc8a30076d18fcf67f08a'' \<and>
   calculateHash (Block_new 0 [] ''0'' 1000)
     = ''eb362db6d63371d7a0020c3fa2c49f7991bf87b374c1bbb36cd9fe71a7f7ed18''"
  by code_simp

text \<open>
  C5. \<^verbatim>\<open>replaceChain\<close> makes the candidate the local chain when the candidate is strictly
  longer, whatever its blocks are (nothing of the candidate but its length is read), and leaves
  the node as it is when the candidate is as long as the local chain or shorter.
\<close>

theorem replaceChain_longest_wins:
  "(length newChain > length (chain (blockchain_of n)) \<longrightarrow>
      replaceChain newChain n = n\<lparr>blockchain_of := (blockchain_of n)\<lparr>chain := newChain\<rparr>\<rparr>) \<and>
   (length newChain \<le> length (chain (blockchain_of n)) \<longrightarrow> replaceChain newChain n = n)"
  by (simp add: replaceChain_def)

text \<open>
  At the example node (two blocks): three stray blocks, which \<^verbatim>\<open>isChainValid\<close> rejects, replace
  the local chain; two of them do not.
\<close>

theorem replaceChain_longest_wins_witness:
  "replaceChain [example_stray, example_stray, example_stray] example_node
     = example_node\<lparr>blockchain_of :=
         example_ledger\<lparr>chain := [example_stray, example_stray, example_stray]\<rparr>\<rparr> \<and>
   isChainValid 9000 (example_ledger\<lparr>chain := [example_stray, example_stray, example_stray]\<rparr>)
     = Inr False \<and>
   replaceChain [example_stray, example_stray] example_node = example_node"
proof -
  have len: "length (chain example_ledger) = 2"
    by (simp add: example_ledger_def)
  have n: "blockchain_of example_node = example_ledger"
    by (simp add: example_node_def)
  show ?thesis
    using replaceChain_longest_wins
        [where newChain = "[example_stray, example_stray, example_stray]" and n = example_node]
      replaceChain_longest_wins [where newChain = "[example_stray, example_stray]" and n = example_node]
    by (simp add: len n isChainValid_strays)
qed

text \<open>
  C6. \<^verbatim>\<open>addTransaction\<close> throws when an address is missing (null or empty: the test is
  \<^verbatim>\<open>!transaction.fromAddress || !transaction.toAddress\<close>), when \<^verbatim>\<open>isValid\<close> does not return
  true (for an unsigned transaction with a sender \<^verbatim>\<open>isValid\<close> itself throws), when the amount is
  not positive, and when the balance of the sender is below the amount. It returns normally
  exactly when none of these holds, and then the pool is the old pool with the transaction at
  its end; whenever it throws the ledger is as before.
\<close>

theorem addTransaction_checks:
  "(\<not> truthy (fromAddress tx) \<or> \<not> truthy (toAddress tx) \<longrightarrow>
      fst (addTransaction tx l) = Some MissingAddress) \<and>
   (isValid tx \<noteq> Inr True \<longrightarrow> fst (addTransaction tx l) \<noteq> None) \<and>
   (fromAddress tx \<noteq> None \<and> \<not> truthy (signature tx) \<longrightarrow> fst (addTransaction tx l) \<noteq> None) \<and>
   (amount tx \<le> 0 \<longrightarrow> fst (addTransaction tx l) \<noteq> None) \<and>
   (getBalance (fromAddress tx) l < amount tx \<longrightarrow> fst (addTransaction tx l) \<noteq> None) \<and>
   (fst (addTransaction tx l) = None \<longleftrightarrow>
      truthy (fromAddress tx) \<and> truthy (toAddress tx) \<and> isValid tx = Inr True \<and>
      0 < amount tx \<and> amount tx \<le> getBalance (fromAddress tx) l) \<and>
   (fst (addTransaction tx l) = None \<longrightarrow>
      snd (addTransaction tx l) = l\<lparr>pendingTransactions := pendingTransactions l @ [tx]\<rparr>) \<and>
   (fst (addTransaction tx l) \<noteq> None \<longrightarrow> snd (addTransaction tx l) = l)"
  by (auto simp: addTransaction_def isValid_cases Let_def)

text \<open>
  On the example ledger the miner owns 10: the signed payment of 2.5 is appended to the empty
  pool; unsigned, or for 11, or without a recipient, it is refused and the ledger keeps its
  state.
\<close>

theorem addTransaction_checks_witness:
  "fst (addTransaction (example_payment\<lparr>signature := Some ''3045''\<rparr>) example_ledger) = None \<and>
   pendingTransactions (snd (addTransaction (example_payment\<lparr>signature := Some ''3045''\<rparr>) example_ledger))
     = [example_payment\<lparr>signature := Some ''3045''\<rparr>] \<and>
   fst (addTransaction example_payment example_ledger) \<noteq> None \<and>
   snd (addTransaction example_payment example_ledger) = example_ledger \<and>
   fst (addTransaction (example_payment\<lparr>signature := Some ''3045'', amount := 11\<rparr>) example_ledger) \<noteq> None \<and>
   fst (addTransaction (example_payment\<lparr>toAddress := None\<rparr>) example_ledger) = Some MissingAddress"
proof -
  have p: "pendingTransactions example_ledger = []"
    by (simp add: example_ledger_def initialize_def Blockchain_new_def)
  have f: "fromAddress example_payment = Some example_miner"
    "toAddress example_payment = Some example_payee"
    "amount example_payment = 5 / 2" "signature example_payment = None"
    by (simp_all add: example_payment_def)
  have t: "truthy (Some example_miner)" "truthy (Some example_payee)" "truthy (Some ''3045'')"
    "\<not> truthy None"
    by (simp_all add: truthy_def example_miner_def example_payee_def)
  show ?thesis
    using addTransaction_checks [of "example_payment\<lparr>signature := Some ''3045''\<rparr>" example_ledger]
      addTransaction_checks [of example_payment example_ledger]
      addTransaction_checks [of "example_payment\<lparr>signature := Some ''3045'', amount := 11\<rparr>" example_ledger]
      addTransaction_checks [of "example_payment\<lparr>toAddress := None\<rparr>" example_ledger]
    by (simp add: p f t example_balance isValid_cases)
qed

text \<open>
  C7 fails on the code. The hash that the constructor stores for \<^verbatim>\<open>new Block(0, [], '0', 1007)\<close>
  starts with '0', so \<^verbatim>\<open>mineBlock(1)\<close> returns at once, the loop body never runs, and the block
  keeps that hash, which is not what \<^verbatim>\<open>calculateHash\<close> computes from its fields. (What holds for
  every block and difficulty is \<open>mineBlock_result\<close> and \<open>mineBlock_error\<close>: the leading zeros on
  a normal return, a hash equal to the recomputation once the loop body has run, and the
  mining timeout as the only error.)
\<close>

theorem mineBlock_keeps_stale_hash:
  "mineBlock 1 (Block_new 0 [] ''0'' 1007) = Inr (Block_new 0 [] ''0'' 1007) \<and>
   hash (Block_new 0 [] ''0'' 1007)
     = ''0a8a614fabe5e571b071d93ccf9416ab36436537fcf9ca33d9a119761fb86d45'' \<and>
   calculateHash (Block_new 0 [] ''0'' 1007)
     = ''9a8d83217e8a9a3de78a43aa4efec72150a71520650f6b95864bddb1065e44c8''"
  by code_simp

text \<open>
  C8, as the code has it. A \<^verbatim>\<open>BLOCK\<close> message extends the local chain by the received block
  exactly when \<^verbatim>\<open>isValidBlock\<close> holds, which asks every one of index, hash, previousHash,
  transactions and timestamp to be truthy (present, a number other than 0, a string other than
  the empty one), and the index is the length of the local chain. Then the message is sent on
  to every peer of \<^verbatim>\<open>connectedPeers\<close> other than the sender whose socket is open. In every other
  case, and when the message has no data, the node is left as it was.
\<close>

theorem handleBlock_accepts_next_block:
  "(isValidBlock bd \<and> bd_index bd = Some (int (length (chain (blockchain_of n)))) \<longrightarrow>
      (\<exists>b. as_block bd = Some b \<and>
           chain (blockchain_of (snd (handleBlock peerId (Some bd) n))) = chain (blockchain_of n) @ [b]) \<and>
      sent (snd (handleBlock peerId (Some bd) n)) =
        sent n @ map (\<lambda>p. (p, BLOCK bd))
                   (filter (\<lambda>p. p \<noteq> peerId \<and> peer_is_open n p) (connectedPeers n))) \<and>
   (\<not> (isValidBlock bd \<and> bd_index bd = Some (int (length (chain (blockchain_of n))))) \<longrightarrow>
      snd (handleBlock peerId (Some bd) n) = n) \<and>
   snd (handleBlock peerId None n) = n"
proof -
  have keep: "peer_is_open (n\<lparr>blockchain_of := l\<rparr>) = peer_is_open n" for l
    by (rule ext) (simp add: peer_is_open_def)
  show ?thesis
    using isValidBlock_as_block [of bd]
    by (auto simp: handleBlock_def broadcastToPeers_eq keep)
qed

theorem handleBlock_accepts_next_block_witness:
  "chain (blockchain_of (snd (handleBlock ''peer-a'' (Some example_block_data) example_node)))
     = chain example_ledger @
       [\<lparr>index = 2, timestamp = 4000, transactions = [], previousHash = ''0ea4'', hash = ''0b17'',
         nonce = 9\<rparr>] \<and>
   sent (snd (handleBlock ''peer-a'' (Some example_block_data) example_node))
     = [(''peer-c'', BLOCK example_block_data)] \<and>
   snd (handleBlock ''peer-a'' (Some (example_block_data\<lparr>bd_index := Some 7\<rparr>)) example_node)
     = example_node"
proof -
  have len: "length (chain example_ledger) = 2"
    by (simp add: example_ledger_def)
  have v: "isValidBlock example_block_data" "isValidBlock (example_block_data\<lparr>bd_index := Some 7\<rparr>)"
    by (simp_all add: isValidBlock_def example_block_data_def truthy_def)
  have a: "as_block example_block_data =
      Some \<lparr>index = 2, timestamp = 4000, transactions = [], previousHash = ''0ea4'', hash = ''0b17'',
         nonce = 9\<rparr>"
    by (simp add: as_block_def example_block_data_def)
  have i: "bd_index example_block_data = Some 2"
    by (simp add: example_block_data_def)
  have o: "filter (\<lambda>p. p \<noteq> ''peer-a'' \<and> peer_is_open example_node p) (connectedPeers example_node)
      = [''peer-c'']"
    by (simp add: example_node_def peer_is_open_def)
  have s: "sent example_node = []" "blockchain_of example_node = example_ledger"
    by (simp_all add: example_node_def)
  show ?thesis
    using handleBlock_accepts_next_block [of example_block_data example_node "''peer-a''"]
      handleBlock_accepts_next_block [of "example_block_data\<lparr>bd_index := Some 7\<rparr>" example_node "''peer-a''"]
    by (simp add: len v a i o s)
qed

text \<open>
  C8 as stated fails: a block with index, hash, previousHash, transactions and timestamp all
  non-null and with the index of the next height, but with the empty string as its hash, is
  dropped.
\<close>

theorem handleBlock_empty_hash_counterexample:
  "bd_index (example_block_data\<lparr>bd_hash := Some ''''\<rparr>) \<noteq> None \<and>
   bd_hash (example_block_data\<lparr>bd_hash := Some ''''\<rparr>) \<noteq> None \<and>
   bd_previousHash (example_block_data\<lparr>bd_hash := Some ''''\<rparr>) \<noteq> None \<and>
   bd_transactions (example_block_data\<lparr>bd_hash := Some ''''\<rparr>) \<noteq> None \<and>
   bd_timestamp (example_block_data\<lparr>bd_hash := Some ''''\<rparr>) \<noteq> None \<and>
   bd_index (example_block_data\<lparr>bd_hash := Some ''''\<rparr>)
     = Some (int (length (chain (blockchain_of example_node)))) \<and>
   handleBlock ''peer-a'' (Some (example_block_data\<lparr>bd_hash := Some ''''\<rparr>)) example_node
     = (None, example_node)"
  by (simp add: example_block_data_def handleBlock_def isValidBlock_def truthy_def
      example_node_def example_ledger_def)

text \<open>
  C9, as the code has it. \<^verbatim>\<open>initialize\<close> without a saved chain leaves the chain with a genesis
  block as its only element. Mining and the acceptance of a gossiped block keep a chain that
  starts with a genesis block non-empty and keep its first block. \<^verbatim>\<open>replaceChain\<close> keeps a
  non-empty chain non-empty; it does not keep the first block.
\<close>

theorem genesis_kept_by_mining_and_gossip:
  "genesis_first (initialize now None Blockchain_new) \<and>
   genesis_first (initialize now (Some ([], pend)) Blockchain_new) \<and>
   (genesis_first l \<longrightarrow>
      genesis_first (snd (minePendingTransactions uuid now_tx now_block addr l)) \<and>
      hd (chain (snd (minePendingTransactions uuid now_tx now_block addr l))) = hd (chain l)) \<and>
   (genesis_first (blockchain_of n) \<longrightarrow>
      genesis_first (blockchain_of (snd (handleBlock peerId blockData n))) \<and>
      hd (chain (blockchain_of (snd (handleBlock peerId blockData n)))) = hd (chain (blockchain_of n))) \<and>
   (chain (blockchain_of n) \<noteq> [] \<longrightarrow> chain (blockchain_of (replaceChain newChain n)) \<noteq> [])"
proof -
  have init: "genesis_first (initialize now None Blockchain_new)"
    "genesis_first (initialize now (Some ([], pend)) Blockchain_new)"
    by (simp_all add: genesis_first_def is_genesis_def initialize_def Blockchain_new_def
        createGenesisBlock_def Block_new_def)
  have app: "genesis_first (l\<lparr>chain := chain l @ [b], pendingTransactions := p\<rparr>)"
    "hd (chain l @ [b]) = hd (chain l)" if "genesis_first l" for l b p
    using that by (auto simp: genesis_first_def split: list.splits)
  have mine: "genesis_first (snd (minePendingTransactions uuid now_tx now_block addr l)) \<and>
      hd (chain (snd (minePendingTransactions uuid now_tx now_block addr l))) = hd (chain l)"
    if "genesis_first l"
    using that app [OF that]
    unfolding minePendingTransactions_cases
    by (auto split: sum.splits)
  have app': "genesis_first (l\<lparr>chain := chain l @ [b]\<rparr>)" if "genesis_first l" for l b
    using that by (auto simp: genesis_first_def split: list.splits)
  have gossip: "genesis_first (blockchain_of (snd (handleBlock peerId blockData n))) \<and>
      hd (chain (blockchain_of (snd (handleBlock peerId blockData n)))) = hd (chain (blockchain_of n))"
    if "genesis_first (blockchain_of n)"
    using that app' [OF that] app(2) [OF that]
    by (auto simp: handleBlock_def broadcastToPeers_eq split: option.splits)
  have repl: "chain (blockchain_of (replaceChain newChain n)) \<noteq> []" if "chain (blockchain_of n) \<noteq> []"
    using that by (auto simp: replaceChain_def)
  show ?thesis
    using init mine gossip repl by blast
qed

text \<open>At the example node and on the ledger with the waiting payments.\<close>

theorem genesis_kept_by_mining_and_gossip_witness:
  "genesis_first (blockchain_of example_node) \<and>
   genesis_first (blockchain_of (snd (handleBlock ''peer-a'' (Some example_block_data) example_node))) \<and>
   hd (chain (blockchain_of (snd (handleBlock ''peer-a'' (Some example_block_data) example_node))))
     = createGenesisBlock 1000 \<and>
   genesis_first example_pool_ledger \<and>
   genesis_first (snd (minePendingTransactions ''123e4567-e89b-42d3-a456-426614174001'' 5000 5001
          (Some example_miner) example_pool_ledger)) \<and>
   chain (blockchain_of example_node) \<noteq> [] \<and>
   chain (blockchain_of (replaceChain [example_stray, example_stray, example_stray] example_node)) \<noteq> []"
proof -
  have g: "genesis_first example_ledger" "genesis_first example_pool_ledger"
    by (simp_all add: genesis_first_def is_genesis_def example_pool_ledger_def example_ledger_def
        createGenesisBlock_def Block_new_def)
  have n: "blockchain_of example_node = example_ledger"
    by (simp add: example_node_def)
  have c: "chain example_ledger = [createGenesisBlock 1000, example_mined]"
    by (simp add: example_ledger_def)
  show ?thesis
    using genesis_kept_by_mining_and_gossip
      [where l = example_pool_ledger and n = example_node and peerId = "''peer-a''"
         and blockData = "Some example_block_data"
         and uuid = "''123e4567-e89b-42d3-a456-426614174001''" and now_tx = 5000
         and now_block = 5001 and addr = "Some example_miner"
         and newChain = "[example_stray, example_stray, example_stray]"
         and now = 1000 and pend = "[]"]
    by (simp add: g n c)
qed

text \<open>
  C9 as stated fails: the example node starts with a genesis block, and after \<^verbatim>\<open>replaceChain\<close>
  with three stray blocks its chain starts with a block that is no genesis block. The
  constructor alone leaves the chain empty.
\<close>

theorem genesis_replaced_counterexample:
  "genesis_first (blockchain_of example_node) \<and>
   \<not> genesis_first
       (blockchain_of (replaceChain [example_stray, example_stray, example_stray] example_node)) \<and>
   chain Blockchain_new = []"
  by (simp add: genesis_first_def is_genesis_def example_node_def example_ledger_def
      replaceChain_def example_stray_def createGenesisBlock_def Block_new_def Blockchain_new_def
      initialize_def)

text \<open>
  C10, as the code has it. On a genesis-only ledger with difficulty 1 and mining reward 10, a
  call of \<^verbatim>\<open>minePendingTransactions\<close> with a reward address that passes \<^verbatim>\<open>validateAddress\<close>
  either returns normally, and then the chain has length 2 and the balance of that address is
  10, or ends with the mining timeout and leaves the ledger as it was.
\<close>

theorem scenario_A_valid_address:
  assumes "validateAddress addr"
  shows "(let l0 = (initialize t0 None Blockchain_new)\<lparr>difficulty := 1, miningReward := 10\<rparr>;
             r = minePendingTransactions uuid now_tx now_block addr l0
         in fst r = None \<and> length (chain (snd r)) = 2 \<and> getBalance addr (snd r) = 10 \<or>
            fst r = Some MiningTimeout \<and> snd r = l0)"
proof -
  have some: "addr \<noteq> None"
    using assms by (cases addr) (simp_all add: validateAddress_def)
  show ?thesis
    using assms some
    unfolding minePendingTransactions_cases Let_def
    by (auto split: sum.splits dest!: mineBlock_result
        simp: initialize_def Blockchain_new_def createGenesisBlock_def Block_new_def
          getBalance_def balance_step_def round2_10)
qed

text \<open>The run with the example miner's address, at the times of the example ledger.\<close>

theorem scenario_A_valid_address_witness:
  "validateAddress (Some example_miner) \<and>
   fst (minePendingTransactions ''123e4567-e89b-42d3-a456-426614174000'' 2000 2078
          (Some example_miner)
          ((initialize 1000 None Blockchain_new)\<lparr>difficulty := 1, miningReward := 10\<rparr>)) = None \<and>
   length (chain (snd (minePendingTransactions ''123e4567-e89b-42d3-a456-426614174000'' 2000 2078
          (Some example_miner)
          ((initialize 1000 None Blockchain_new)\<lparr>difficulty := 1, miningReward := 10\<rparr>)))) = 2 \<and>
   getBalance (Some example_miner)
     (snd (minePendingTransactions ''123e4567-e89b-42d3-a456-426614174000'' 2000 2078
          (Some example_miner)
          ((initialize 1000 None Blockchain_new)\<lparr>difficulty := 1, miningReward := 10\<rparr>))) = 10"
  using scenario_A_valid_address
    [OF example_miner_valid, where ?t0.0 = 1000 and uuid = "''123e4567-e89b-42d3-a456-426614174000''"
       and now_tx = 2000 and now_block = 2078]
  unfolding Let_def example_mining_run
  by (simp add: example_miner_valid)

text \<open>
  C10 as stated fails: \<^verbatim>\<open>"Kaddr1"\<close> has 6 characters, not 51, so the constructor of the reward
  transaction throws; the chain keeps its length 1 and the balance of \<^verbatim>\<open>"Kaddr1"\<close> is 0.
\<close>

theorem scenario_A_Kaddr1_counterexample:
  "fst (minePendingTransactions ''123e4567-e89b-42d3-a456-426614174000'' 2000 2078 (Some ''Kaddr1'')
          ((initialize 1000 None Blockchain_new)\<lparr>difficulty := 1, miningReward := 10\<rparr>))
     = Some InvalidRecipientAddress \<and>
   length (chain (snd (minePendingTransactions ''123e4567-e89b-42d3-a456-426614174000'' 2000 2078
          (Some ''Kaddr1'')
          ((initialize 1000 None Blockchain_new)\<lparr>difficulty := 1, miningReward := 10\<rparr>)))) = 1 \<and>
   getBalance (Some ''Kaddr1'')
     (snd (minePendingTransactions ''123e4567-e89b-42d3-a456-426614174000'' 2000 2078
          (Some ''Kaddr1'')
          ((initialize 1000 None Blockchain_new)\<lparr>difficulty := 1, miningReward := 10\<rparr>))) = 0"
  by (simp add: minePendingTransactions_cases validateAddress_def initialize_def Blockchain_new_def
      getBalance_def createGenesisBlock_def Block_new_def)

end
